theory Spec2Isabelle
  imports Complex_Main "HOL-Library.Product_Lexorder" "HOL-Library.List_Lexorder"
    "HOL-Library.Char_ord"
begin

section \<open>Configuration constants\<close>

text \<open>
  The constants of \<^verbatim>\<open>update_data.py\<close> and \<^verbatim>\<open>app.py\<close>. A Python dict that is
  iterated (\<^verbatim>\<open>EURO_TENORS.items()\<close>, \<^verbatim>\<open>EURO_COUNTRIES.keys()\<close>) is an association
  list in insertion order.
\<close>

definition EURO_COUNTRIES :: "(string \<times> string) list" where
  "EURO_COUNTRIES = [(''DE'', ''Germany''), (''IT'', ''Italy''), (''FR'', ''France'')]"

definition EURO_TENORS :: "(string \<times> string) list" where
  "EURO_TENORS = [(''Up to 1Y'', ''S''), (''1Y-2Y'', ''Y12''), (''2Y-5Y'', ''Y25''),
     (''5Y-10Y'', ''Y5A''), (''10Y+'', ''YA_'')]"

definition EURO_PLOT_ORDER :: "string list" where
  "EURO_PLOT_ORDER = [''Up to 1Y'', ''1Y-2Y'', ''2Y-5Y'', ''5Y-10Y'', ''10Y+'']"

definition US_AUCTION_CACHE_FILE :: string where
  "US_AUCTION_CACHE_FILE = ''auctions.pkl''"

definition US_PLOT_ORDER :: "string list" where
  "US_PLOT_ORDER = [''< 1 Month'', ''1-3 Months'', ''3-12 Months'', ''1-3 Years'',
     ''3-10 Years'', ''10+ Years'', ''Other'']"

section \<open>The maturity binner\<close>

text \<open>
  \<^verbatim>\<open>duration_days\<close> is \<^verbatim>\<open>(maturity_date - issue_date).dt.days\<close>: an integer number of
  days, or NaN when one of the two dates is NaT (\<^verbatim>\<open>maturity_date\<close> is parsed with
  \<^verbatim>\<open>errors='coerce'\<close>). Every ordering comparison of Python with NaN is False.
\<close>

datatype duration = Days int | NaNDays

fun le_days :: "duration \<Rightarrow> int \<Rightarrow> bool" where
  "le_days (Days d) k = (d \<le> k)"
| "le_days NaNDays k = False"

fun lt_days :: "duration \<Rightarrow> int \<Rightarrow> bool" where
  "lt_days (Days d) k = (d < k)"
| "lt_days NaNDays k = False"

definition assign_maturity_bin :: "duration \<Rightarrow> string" where
  "assign_maturity_bin days =
     (if le_days days 0 then ''Other''
      else if lt_days days 30 then ''< 1 Month''
      else if lt_days days 91 then ''1-3 Months''
      else if lt_days days 365 then ''3-12 Months''
      else if lt_days days (365 * 3) then ''1-3 Years''
      else if lt_days days (365 * 10) then ''3-10 Years''
      else ''10+ Years'')"

section \<open>Dates and periods\<close>

text \<open>
  A calendar date is (year, month, day); the lexicographic order of the triple is the
  chronological one. \<open>days_from_civil\<close> numbers the days of the proleptic Gregorian
  calendar, so that the difference of two dates is what
  \<^verbatim>\<open>(maturity_date - issue_date).dt.days\<close> gives. A quarter (\<^verbatim>\<open>freq='Q'\<close>: January to
  March, ..., October to December) and a month (\<^verbatim>\<open>freq='M'\<close>) are numbered
  consecutively; the number stands for the period-end label of pandas.
\<close>

type_synonym date = "int \<times> int \<times> int"

definition days_from_civil :: "date \<Rightarrow> int" where
  "days_from_civil dt =
     (case dt of (y, m, d) \<Rightarrow>
        let y' = (if m \<le> 2 then y - 1 else y);
            era = y' div 400;
            yoe = y' - era * 400;
            mp = (if 2 < m then m - 3 else m + 9);
            doy = (153 * mp + 2) div 5 + d - 1;
            doe = yoe * 365 + yoe div 4 - yoe div 100 + doy
        in era * 146097 + doe - 719468)"

definition quarter_key :: "date \<Rightarrow> int" where
  "quarter_key dt = (case dt of (y, m, d) \<Rightarrow> y * 4 + (m - 1) div 3)"

definition month_key :: "date \<Rightarrow> int" where
  "month_key dt = (case dt of (y, m, d) \<Rightarrow> y * 12 + (m - 1))"

section \<open>Numeric cells\<close>

text \<open>
  Amounts are exact rationals: the rounding of float64 is not modelled. What is
  modelled of float64 is what the code relies on: a division by zero does not raise but
  gives NaN (0/0) or an infinity, \<^verbatim>\<open>fillna\<close> replaces NaN, and a sum skips NaN.
\<close>

datatype fl = Val rat | NaN | PosInf | NegInf

definition fdiv :: "rat \<Rightarrow> rat \<Rightarrow> fl" where
  "fdiv a b =
     (if b \<noteq> 0 then Val (a / b)
      else if a = 0 then NaN
      else if 0 < a then PosInf else NegInf)"

fun fillna :: "rat \<Rightarrow> fl \<Rightarrow> fl" where
  "fillna v NaN = Val v"
| "fillna v x = x"

fun fmul :: "fl \<Rightarrow> rat \<Rightarrow> fl" where
  "fmul (Val x) c = Val (x * c)"
| "fmul NaN c = NaN"
| "fmul PosInf c = (if 0 < c then PosInf else if c < 0 then NegInf else NaN)"
| "fmul NegInf c = (if 0 < c then NegInf else if c < 0 then PosInf else NaN)"

fun fadd :: "fl \<Rightarrow> fl \<Rightarrow> fl" where
  "fadd (Val x) (Val y) = Val (x + y)"
| "fadd NaN y = NaN"
| "fadd x NaN = NaN"
| "fadd PosInf NegInf = NaN"
| "fadd NegInf PosInf = NaN"
| "fadd PosInf y = PosInf"
| "fadd x PosInf = PosInf"
| "fadd NegInf y = NegInf"
| "fadd x NegInf = NegInf"

definition fsum :: "fl list \<Rightarrow> fl" where
  \<comment> \<open>\<^verbatim>\<open>Series.sum()\<close>: NaN entries are skipped\<close>
  "fsum xs = foldl fadd (Val 0) (filter (\<lambda>x. x \<noteq> NaN) xs)"

fun fpos :: "fl \<Rightarrow> bool" where
  \<comment> \<open>the comparison \<^verbatim>\<open>x > 0\<close>\<close>
  "fpos (Val x) = (0 < x)"
| "fpos PosInf = True"
| "fpos x = False"

section \<open>Tables\<close>

text \<open>
  A DataFrame whose rows are labelled by periods and whose columns are labelled by
  bucket names. A Series indexed by periods is an association list.
\<close>

record 'v frame =
  index :: "int list"
  columns :: "string list"
  cell :: "int \<Rightarrow> string \<Rightarrow> 'v"

definition df_empty :: "'v frame \<Rightarrow> bool" where
  \<comment> \<open>\<^verbatim>\<open>df.empty\<close>: an axis of length 0\<close>
  "df_empty df = (index df = [] \<or> columns df = [])"

definition column :: "'v frame \<Rightarrow> string \<Rightarrow> 'v list" where
  \<comment> \<open>\<^verbatim>\<open>df[cat]\<close>\<close>
  "column df cat = map (\<lambda>p. cell df p cat) (index df)"

definition row_sum :: "rat frame \<Rightarrow> int \<Rightarrow> rat" where
  \<comment> \<open>one entry of \<^verbatim>\<open>df.sum(axis=1)\<close>\<close>
  "row_sum df p = sum_list (map (cell df p) (columns df))"

definition frame_map :: "('a \<Rightarrow> 'b) \<Rightarrow> 'a frame \<Rightarrow> 'b frame" where
  "frame_map f df =
     \<lparr>index = index df, columns = columns df, cell = (\<lambda>p b. f (cell df p b))\<rparr>"

definition groupby_sum_unstack ::
  "('r \<Rightarrow> int) \<Rightarrow> ('r \<Rightarrow> string) \<Rightarrow> ('r \<Rightarrow> rat) \<Rightarrow> 'r list \<Rightarrow> rat frame" where
  \<comment> \<open>\<^verbatim>\<open>df.groupby([pd.Grouper(freq=...), key])[col].sum().unstack(fill_value=0)\<close>\<close>
  "groupby_sum_unstack period bucket amount rs =
     \<lparr>index = sort (remdups (map period rs)),
      columns = sort (remdups (map bucket rs)),
      cell = (\<lambda>p b.
        let g = filter (\<lambda>r. period r = p \<and> bucket r = b) rs
        in if g = [] then 0 else sum_list (map amount g))\<rparr>"

definition resample_sum :: "('r \<Rightarrow> int) \<Rightarrow> ('r \<Rightarrow> rat) \<Rightarrow> 'r list \<Rightarrow> (int \<times> rat) list" where
  \<comment> \<open>\<^verbatim>\<open>df.resample(freq)[col].sum()\<close>: every period from the first to the last one\<close>
  "resample_sum period amount rs =
     (case map period rs of
        [] \<Rightarrow> []
      | k # ks \<Rightarrow>
          map (\<lambda>p. (p, sum_list (map amount (filter (\<lambda>r. period r = p) rs))))
            [fold min ks k .. fold max ks k])"

definition div_axis0 :: "rat frame \<Rightarrow> (int \<times> rat) list \<Rightarrow> fl frame" where
  \<comment> \<open>\<^verbatim>\<open>df.div(series, axis=0)\<close>: the row labels are aligned (outer join); a label
      that one side lacks gives NaN\<close>
  "div_axis0 df s =
     \<lparr>index = (if index df = map fst s then index df
               else sort (remdups (index df @ map fst s))),
      columns = columns df,
      cell = (\<lambda>p b.
        if p \<in> set (index df)
        then (case map_of s p of Some t \<Rightarrow> fdiv (cell df p b) t | None \<Rightarrow> NaN)
        else NaN)\<rparr>"

section \<open>Files and output\<close>

text \<open>
  The records of the US cache, the world the two programs act on (the cache file of the
  US, the cache file of each Euro country by country code, and the lines printed), and
  the exceptions that the model follows.
\<close>

datatype error = KeyError | ValueError | FileNotFoundError

record us_row =
  issue_date :: "date option"
  maturity_date :: "date option"
  auction_date :: "date option"
  total_accepted :: rat
  offering_amt :: rat
  security_term :: string
  duration_days :: duration
  maturity_bin :: string

record world =
  us_cache :: "us_row list option"
  euro_cache :: "string \<Rightarrow> rat frame option"
  stdout :: "string list"

definition print :: "string \<Rightarrow> world \<Rightarrow> world" where
  "print s w = w\<lparr>stdout := stdout w @ [s]\<rparr>"

section \<open>The refresh script: US\<close>

text \<open>
  A field of a fetched JSON record is a valid value, null, or a string that does not
  parse. A page request either raises a \<^verbatim>\<open>RequestException\<close> (network failure, timeout,
  or the \<^verbatim>\<open>HTTPError\<close> of \<^verbatim>\<open>raise_for_status\<close>) or gives the page's \<^verbatim>\<open>data\<close> array
  with the optional \<^verbatim>\<open>meta.total-pages\<close>. The refresh runs with its default
  \<^verbatim>\<open>start_year=2000\<close>. The printed lines are kept without their pictographs and without
  the interpolated text of an exception or a count.
\<close>

datatype 'a raw = Valid 'a | Null | Garbage

record api_row =
  raw_issue_date :: "date raw"
  raw_maturity_date :: "date raw"
  raw_auction_date :: "date raw"
  raw_total_accepted :: "rat raw"
  raw_offering_amt :: "rat raw"
  raw_security_term :: string

datatype response = RequestException | Page "api_row list" "int option"

fun fetch_pages :: "(int \<Rightarrow> response) \<Rightarrow> int list \<Rightarrow> api_row list \<Rightarrow> api_row list option" where
  "fetch_pages requests_get [] all_records = Some all_records"
| "fetch_pages requests_get (page_num # rest) all_records =
     (case requests_get page_num of
        RequestException \<Rightarrow> None
      | Page data meta \<Rightarrow> fetch_pages requests_get rest (all_records @ data))"

definition total_pages :: "int option \<Rightarrow> int" where
  \<comment> \<open>\<^verbatim>\<open>data.get('meta', {}).get('total-pages', 1)\<close>\<close>
  "total_pages meta = (case meta of None \<Rightarrow> 1 | Some n \<Rightarrow> n)"

definition fetch_records :: "(int \<Rightarrow> response) \<Rightarrow> api_row list option" where
  \<comment> \<open>the \<^verbatim>\<open>try\<close> block of \<^verbatim>\<open>fetch_us_data\<close>; None when the \<^verbatim>\<open>except\<close> clause is taken\<close>
  "fetch_records requests_get =
     (case requests_get 1 of
        RequestException \<Rightarrow> None
      | Page data meta \<Rightarrow> fetch_pages requests_get [2 .. total_pages meta] data)"

definition fetch_us_data :: "(int \<Rightarrow> response) \<Rightarrow> world \<Rightarrow> api_row list option \<times> world" where
  "fetch_us_data requests_get w =
     (let w1 = print ''Fetching live US data from /v1/accounting/od/auctions_query?filter=issue_date:gte:2000-01-01...'' w
      in case fetch_records requests_get of
           None \<Rightarrow>
             (None, print ''CRITICAL: Failed to fetch US data from /v1/accounting/od/auctions_query'' w1)
         | Some all_records \<Rightarrow> (Some all_records, print ''US Fetch complete.'' w1))"

definition to_datetime_coerce :: "date raw \<Rightarrow> date option" where
  \<comment> \<open>\<^verbatim>\<open>pd.to_datetime(..., errors='coerce')\<close>: NaT for what does not parse\<close>
  "to_datetime_coerce x = (case x of Valid d \<Rightarrow> Some d | Null \<Rightarrow> None | Garbage \<Rightarrow> None)"

definition to_numeric_fillna :: "rat raw \<Rightarrow> rat" where
  \<comment> \<open>\<^verbatim>\<open>pd.to_numeric(..., errors='coerce').fillna(0)\<close>\<close>
  "to_numeric_fillna x = (case x of Valid v \<Rightarrow> v | Null \<Rightarrow> 0 | Garbage \<Rightarrow> 0)"

definition dt_days :: "date option \<Rightarrow> date option \<Rightarrow> duration" where
  \<comment> \<open>\<^verbatim>\<open>(maturity_date - issue_date).dt.days\<close>\<close>
  "dt_days maturity issue =
     (case (maturity, issue) of
        (Some m, Some i) \<Rightarrow> Days (days_from_civil m - days_from_civil i)
      | _ \<Rightarrow> NaNDays)"

definition prepare_row :: "api_row \<Rightarrow> us_row" where
  "prepare_row r =
     (let issue = to_datetime_coerce (raw_issue_date r);
          maturity = to_datetime_coerce (raw_maturity_date r);
          days = dt_days maturity issue
      in \<lparr>issue_date = issue, maturity_date = maturity,
          auction_date = to_datetime_coerce (raw_auction_date r),
          total_accepted = to_numeric_fillna (raw_total_accepted r),
          offering_amt = to_numeric_fillna (raw_offering_amt r),
          security_term = raw_security_term r,
          duration_days = days,
          maturity_bin = assign_maturity_bin days\<rparr>)"

definition prepare_us_data :: "api_row list \<Rightarrow> error + us_row list" where
  \<comment> \<open>the processing of \<^verbatim>\<open>update_us_cache\<close>. A DataFrame of no records has no
      \<^verbatim>\<open>issue_date\<close> column; \<^verbatim>\<open>issue_date\<close> is parsed without \<^verbatim>\<open>errors='coerce'\<close>, so a
      string that does not parse raises, and past that check the strict and the coercing
      conversion agree\<close>
  "prepare_us_data all_records =
     (if all_records = [] then Inl KeyError
      else if list_ex (\<lambda>r. raw_issue_date r = Garbage) all_records then Inl ValueError
      else Inr (map prepare_row all_records))"

definition update_us_cache :: "(int \<Rightarrow> response) \<Rightarrow> world \<Rightarrow> error option \<times> world" where
  "update_us_cache requests_get w =
     (let w1 = print ''--- Starting US Data Update ---'' w
      in case fetch_us_data requests_get w1 of
           (None, w2) \<Rightarrow> (None, print ''US data fetch failed. Cache not updated.'' w2)
         | (Some all_records, w2) \<Rightarrow>
             (let w3 = print ''Processing and preparing US data for cache...'' w2
              in case prepare_us_data all_records of
                   Inl e \<Rightarrow> (Some e, w3)
                 | Inr auction_df \<Rightarrow>
                     (None, print ''US data cache updated and saved to auctions.pkl''
                        (w3\<lparr>us_cache := Some auction_df\<rparr>))))"

section \<open>The refresh script: Euro area\<close>

text \<open>
  The ECB service is a function of the country code and the tenor code of the series
  key: a query either raises or gives a series of observations, each a date with a value
  that may be NaN (None).
\<close>

datatype ecb_result = EcbError | EcbSeries "(date \<times> rat option) list"

fun fetch_tenors ::
  "(string \<Rightarrow> ecb_result) \<Rightarrow> (string \<times> string) list \<Rightarrow> world
     \<Rightarrow> (string \<times> (date \<times> rat option) list) list \<times> world" where
  "fetch_tenors ecb_data [] w = ([], w)"
| "fetch_tenors ecb_data ((tenor_name, tenor_code) # rest) w =
     (let w1 = print (''Fetching tenor: '' @ tenor_name @ ''...'') w
      in case ecb_data tenor_code of
           EcbSeries series \<Rightarrow>
             (case fetch_tenors ecb_data rest w1 of
                (country_data_frames, w2) \<Rightarrow> ((tenor_name, series) # country_data_frames, w2))
         | EcbError \<Rightarrow>
             fetch_tenors ecb_data rest
               (print (''  -> Could not retrieve data for tenor '' @ tenor_name) w1))"

definition df_long :: "(string \<times> (date \<times> rat option) list) list \<Rightarrow> (date \<times> string \<times> rat) list" where
  \<comment> \<open>\<^verbatim>\<open>pd.concat(..., axis=1)\<close>, \<^verbatim>\<open>melt\<close> and \<^verbatim>\<open>dropna(subset=['Issuance'])\<close>: one row for
      each observation of each tenor that has a value\<close>
  "df_long country_data_frames =
     concat (map (\<lambda>(tenor_name, series).
       List.map_filter (\<lambda>(t, v). case v of None \<Rightarrow> None | Some x \<Rightarrow> Some (t, tenor_name, x)) series)
       country_data_frames)"

definition monthly_summary_of :: "(date \<times> string \<times> rat) list \<Rightarrow> rat frame" where
  "monthly_summary_of long =
     groupby_sum_unstack (\<lambda>r. month_key (fst r)) (\<lambda>r. fst (snd r)) (\<lambda>r. snd (snd r)) long"

definition get_and_process_euro_data ::
  "(string \<Rightarrow> string \<Rightarrow> ecb_result) \<Rightarrow> string \<Rightarrow> world \<Rightarrow> (error + rat frame option) \<times> world" where
  "get_and_process_euro_data ecb country_code w =
     (case map_of EURO_COUNTRIES country_code of
        None \<Rightarrow> (Inl KeyError, w)
      | Some country_name \<Rightarrow>
          (let w1 = print (''--- Fetching EURO data for '' @ country_name @ '' ('' @ country_code @ '') ---'') w
           in case fetch_tenors (ecb country_code) EURO_TENORS w1 of
                (country_data_frames, w2) \<Rightarrow>
                  if country_data_frames = [] then (Inr None, w2)
                  else (Inr (Some (monthly_summary_of (df_long country_data_frames))),
                        print ''Data fetched. Consolidating for cache...'' w2)))"

fun update_euro_loop ::
  "(string \<Rightarrow> string \<Rightarrow> ecb_result) \<Rightarrow> string list \<Rightarrow> world \<Rightarrow> error option \<times> world" where
  "update_euro_loop ecb [] w = (None, w)"
| "update_euro_loop ecb (code # rest) w =
     (case get_and_process_euro_data ecb code w of
        (Inl e, w1) \<Rightarrow> (Some e, w1)
      | (Inr None, w1) \<Rightarrow> update_euro_loop ecb rest w1
      | (Inr (Some monthly_summary), w1) \<Rightarrow>
          update_euro_loop ecb rest
            (print (''Euro data cache for '' @ code @ '' updated and saved to euro_data_'' @ code @ ''.pkl'')
               (w1\<lparr>euro_cache := (euro_cache w1)(code \<mapsto> monthly_summary)\<rparr>)))"

definition update_euro_cache ::
  "(string \<Rightarrow> string \<Rightarrow> ecb_result) \<Rightarrow> world \<Rightarrow> error option \<times> world" where
  "update_euro_cache ecb w =
     update_euro_loop ecb (map fst EURO_COUNTRIES) (print ''--- Starting EURO Data Update ---'' w)"

subsection \<open>The tenors that succeeded\<close>

text \<open>
  The tenors of \<open>EURO_TENORS\<close> whose query did not raise, in order, each with its series:
  what the loop of \<^verbatim>\<open>get_and_process_euro_data\<close> is expected to collect.
\<close>

definition successful_series ::
  "(string \<Rightarrow> ecb_result) \<Rightarrow> (string \<times> (date \<times> rat option) list) list" where
  "successful_series ecb_data =
     List.map_filter (\<lambda>(tenor_name, tenor_code).
       case ecb_data tenor_code of
         EcbSeries series \<Rightarrow> Some (tenor_name, series)
       | EcbError \<Rightarrow> None) EURO_TENORS"

section \<open>The refresh script: main block\<close>

text \<open>
  The exit status of the process is 0 when the main block runs to its end and 1 when an
  exception propagates out of it; the script never calls \<^verbatim>\<open>sys.exit\<close>.
\<close>

definition exit_status :: "error option \<Rightarrow> int" where
  "exit_status r = (case r of None \<Rightarrow> 0 | Some e \<Rightarrow> 1)"

definition main ::
  "string list \<Rightarrow> (int \<Rightarrow> response) \<Rightarrow> (string \<Rightarrow> string \<Rightarrow> ecb_result) \<Rightarrow> world \<Rightarrow> int \<times> world" where
  "main argv requests_get ecb w =
     (if 1 < length argv \<and> argv ! 1 = ''daily'' then
        (case update_us_cache requests_get w of (r, w1) \<Rightarrow> (exit_status r, w1))
      else if 1 < length argv \<and> argv ! 1 = ''monthly'' then
        (case update_euro_cache ecb w of (r, w1) \<Rightarrow> (exit_status r, w1))
      else
        (case update_us_cache requests_get (print ''Updating all data sources...'' w) of
           (Some e, w1) \<Rightarrow> (1, w1)
         | (None, w1) \<Rightarrow> (case update_euro_cache ecb w1 of (r, w2) \<Rightarrow> (exit_status r, w2))))"

section \<open>The web application: charts\<close>

text \<open>
  A figure is its title, its traces (a name with the points of the series) and the
  positions of its vertical guide lines; the markup that plotly makes of it is opaque.
  A piece of the page is literal markup, a figure, or the table of forthcoming auctions.
\<close>

record figure =
  title_text :: string
  traces :: "(string \<times> (int \<times> fl) list) list"
  shapes :: "int list"

datatype html = Markup string | Plot figure | AuctionTable "(date \<times> string \<times> rat) list"

definition area_traces :: "string list \<Rightarrow> fl frame \<Rightarrow> (string \<times> (int \<times> fl) list) list" where
  \<comment> \<open>\<^verbatim>\<open>for cat in ORDER: if cat in df.columns and df[cat].sum() > 0: add_trace(...)\<close>\<close>
  "area_traces plot_order df =
     map (\<lambda>cat. (cat, zip (index df) (column df cat)))
       (filter (\<lambda>cat. cat \<in> set (columns df) \<and> fpos (fsum (column df cat))) plot_order)"

definition df_positive :: "rat frame \<Rightarrow> rat frame" where
  \<comment> \<open>\<^verbatim>\<open>df[monthly_total > 0]\<close> with \<^verbatim>\<open>monthly_total = df.sum(axis=1)\<close>\<close>
  "df_positive df = df\<lparr>index := filter (\<lambda>p. 0 < row_sum df p) (index df)\<rparr>"

definition monthly_total_positive :: "rat frame \<Rightarrow> (int \<times> rat) list" where
  "monthly_total_positive df =
     map (\<lambda>p. (p, row_sum (df_positive df) p)) (index (df_positive df))"

definition df_pct :: "rat frame \<Rightarrow> fl frame" where
  \<comment> \<open>\<^verbatim>\<open>df_positive.div(monthly_total_positive, axis=0) * 100\<close>\<close>
  "df_pct df =
     frame_map (\<lambda>x. fmul x 100) (div_axis0 (df_positive df) (monthly_total_positive df))"

definition df_billions :: "rat frame \<Rightarrow> fl frame" where
  "df_billions df = frame_map (\<lambda>x. Val (x / 1000)) (df_positive df)"

definition create_euro_plotly_charts :: "rat frame option \<Rightarrow> string \<Rightarrow> html \<times> html" where
  "create_euro_plotly_charts df_opt country_name =
     (case df_opt of
        None \<Rightarrow> (Markup ''<p>No data to display.</p>'', Markup ''<p>No data to display.</p>'')
      | Some df \<Rightarrow>
          if df_empty df
          then (Markup ''<p>No data to display.</p>'', Markup ''<p>No data to display.</p>'')
          else if df_empty (df_positive df)
          then (Markup ''<p>No positive issuance data to plot.</p>'',
                Markup ''<p>No positive issuance data to plot.</p>'')
          else
            (Plot \<lparr>title_text = ''<b>'' @ country_name @ '' Debt Issuance Mix (by Month)</b>'',
                   traces = area_traces EURO_PLOT_ORDER (df_pct df),
                   shapes = index (df_positive df)\<rparr>,
             Plot \<lparr>title_text =
                     ''<b>'' @ country_name @ '' Nominal Debt Issuance by Tenor (by Month)</b>'',
                   traces = area_traces EURO_PLOT_ORDER (df_billions df),
                   shapes = index (df_positive df)\<rparr>))"

section \<open>The web application: start and request handler\<close>

definition read_pickle :: "'a option \<Rightarrow> error + 'a" where
  \<comment> \<open>\<^verbatim>\<open>pd.read_pickle\<close> on the content of a file, None when the file does not exist\<close>
  "read_pickle file = (case file of None \<Rightarrow> Inl FileNotFoundError | Some t \<Rightarrow> Inr t)"

definition load_US_DASHBOARD_DATA :: "world \<Rightarrow> (error + us_row list) \<times> world" where
  \<comment> \<open>the module-level \<^verbatim>\<open>try\<close>/\<^verbatim>\<open>except FileNotFoundError\<close> that runs once when the
      application starts\<close>
  "load_US_DASHBOARD_DATA w =
     (case read_pickle (us_cache w) of
        Inr df \<Rightarrow> (Inr df, print ''Successfully loaded US data from cache file: auctions.pkl'' w)
      | Inl FileNotFoundError \<Rightarrow>
          (Inr [], print ''WARNING: US cache file not found. US charts will be empty until the update script is run.'' w)
      | Inl e \<Rightarrow> (Inl e, w))"

record request =
  arg_country :: "string option"
  arg_start_date :: "date option"
  arg_end_date :: "date option"

record page =
  title :: string
  chart_html :: html
  nominal_chart_html :: html
  future_table_html :: "html list"
  selected_country :: string
  start_date :: "date option"
  end_date :: "date option"

definition future_table :: "us_row list \<Rightarrow> date \<Rightarrow> html list" where
  "future_table data today =
     (let df_future = List.map_filter (\<lambda>r.
            case auction_date r of
              None \<Rightarrow> None
            | Some a \<Rightarrow> if today < a then Some (a, security_term r, offering_amt r / 10 ^ 9) else None)
            data
      in Markup ''<h2>Forthcoming Auctions</h2>'' #
         (if df_future \<noteq> [] then [AuctionTable (sort_key fst df_future)]
          else [Markup ''<p>No future auctions currently announced.</p>'']))"

definition df_filtered :: "us_row list \<Rightarrow> date \<Rightarrow> date \<Rightarrow> (date \<times> us_row) list" where
  \<comment> \<open>the rows within the date window, indexed by \<^verbatim>\<open>issue_date\<close>; a comparison with NaT
      is False\<close>
  "df_filtered data start end_d =
     List.map_filter (\<lambda>r.
       case issue_date r of
         None \<Rightarrow> None
       | Some d \<Rightarrow> if start \<le> d \<and> d \<le> end_d then Some (d, r) else None) data"

definition quarterly_issuance :: "(date \<times> us_row) list \<Rightarrow> (int \<times> rat) list" where
  "quarterly_issuance df = resample_sum (\<lambda>x. quarter_key (fst x)) (\<lambda>x. total_accepted (snd x)) df"

definition quarterly_mix_nominal :: "(date \<times> us_row) list \<Rightarrow> rat frame" where
  "quarterly_mix_nominal df =
     groupby_sum_unstack (\<lambda>x. quarter_key (fst x)) (\<lambda>x. maturity_bin (snd x))
       (\<lambda>x. total_accepted (snd x)) df"

definition quarterly_mix_pct :: "(date \<times> us_row) list \<Rightarrow> fl frame" where
  \<comment> \<open>\<^verbatim>\<open>quarterly_mix_nominal.divide(quarterly_issuance, axis=0).fillna(0) * 100\<close>\<close>
  "quarterly_mix_pct df =
     frame_map (\<lambda>x. fmul x 100)
       (frame_map (fillna 0) (div_axis0 (quarterly_mix_nominal df) (quarterly_issuance df)))"

definition nominal_traces :: "string list \<Rightarrow> rat frame \<Rightarrow> (string \<times> (int \<times> fl) list) list" where
  "nominal_traces plot_order df =
     map (\<lambda>cat. (cat, zip (index df) (map (\<lambda>x. Val (x / 10 ^ 9)) (column df cat))))
       (filter (\<lambda>cat. cat \<in> set (columns df) \<and> 0 < sum_list (column df cat)) plot_order)"

definition us_dashboard :: "us_row list \<Rightarrow> date \<Rightarrow> request \<Rightarrow> page \<Rightarrow> error + page" where
  \<comment> \<open>the branch \<^verbatim>\<open>selected_country_code == 'US'\<close>. The minimum of \<^verbatim>\<open>issue_date\<close> skips
      NaT; when every date is NaT it is NaT, whose \<^verbatim>\<open>strftime\<close> raises\<close>
  "us_dashboard US_DASHBOARD_DATA today args pg =
     (if US_DASHBOARD_DATA = [] then
        Inr (pg\<lparr>chart_html := Markup ''<p>US data cache is empty. Please run the update script.</p>'',
                nominal_chart_html := Markup ''<p>US data cache is empty. Please run the update script.</p>''\<rparr>)
      else
        (case List.map_filter issue_date US_DASHBOARD_DATA of
           [] \<Rightarrow> Inl ValueError
         | d # ds \<Rightarrow>
             (let default_start = fold min ds d;
                  start = (case arg_start_date args of None \<Rightarrow> default_start | Some s \<Rightarrow> s);
                  end_d = (case arg_end_date args of None \<Rightarrow> today | Some e \<Rightarrow> e);
                  pg1 = pg\<lparr>start_date := Some start, end_date := Some end_d,
                          future_table_html := future_table US_DASHBOARD_DATA today\<rparr>;
                  df = df_filtered US_DASHBOARD_DATA start end_d
              in if df = [] then
                   Inr (pg1\<lparr>chart_html := Markup ''<p>No data for selected date range.</p>'',
                            nominal_chart_html := Markup ''<p>No data for selected date range.</p>''\<rparr>)
                 else
                   Inr (pg1\<lparr>chart_html := Plot
                              \<lparr>title_text = ''<b>U.S. Treasury Debt Issuance Mix (by Quarter)</b>'',
                               traces = area_traces US_PLOT_ORDER (quarterly_mix_pct df),
                               shapes = index (quarterly_mix_pct df)\<rparr>,
                            nominal_chart_html := Plot
                              \<lparr>title_text = ''<b>Nominal Debt Issuance by Maturity (by Quarter)</b>'',
                               traces = nominal_traces US_PLOT_ORDER (quarterly_mix_nominal df),
                               shapes = index (quarterly_mix_pct df)\<rparr>\<rparr>))))"

definition euro_dashboard :: "string \<Rightarrow> string \<Rightarrow> page \<Rightarrow> world \<Rightarrow> (error + page) \<times> world" where
  \<comment> \<open>the branch \<^verbatim>\<open>selected_country_code in EURO_COUNTRIES\<close>, with its
      \<^verbatim>\<open>try\<close>/\<^verbatim>\<open>except FileNotFoundError\<close>\<close>
  "euro_dashboard code country_name pg w =
     (case read_pickle (euro_cache w code) of
        Inr monthly_summary_df \<Rightarrow>
          (case create_euro_plotly_charts (Some monthly_summary_df) country_name of
             (c, n) \<Rightarrow>
               (Inr (pg\<lparr>chart_html := c, nominal_chart_html := n\<rparr>),
                print (''Successfully loaded EURO data from cache file: euro_data_'' @ code @ ''.pkl'') w))
      | Inl FileNotFoundError \<Rightarrow>
          (Inr (pg\<lparr>chart_html := Markup (''<p>Euro data cache for '' @ country_name
                        @ '' is empty. Please run the update script.</p>''),
                    nominal_chart_html := Markup (''<p>Euro data cache for '' @ country_name
                        @ '' is empty. Please run the update script.</p>'')\<rparr>),
           print (''WARNING: EURO cache file for '' @ code
                    @ '' not found. Charts will be empty until the update script is run.'') w)
      | Inl e \<Rightarrow> (Inl e, w))"

definition dashboard :: "us_row list \<Rightarrow> date \<Rightarrow> request \<Rightarrow> world \<Rightarrow> (error + page) \<times> world" where
  "dashboard US_DASHBOARD_DATA today args w =
     (let selected_country_code = (case arg_country args of None \<Rightarrow> ''US'' | Some c \<Rightarrow> c);
          pg = \<lparr>title = ''Debt Issuance Dashboard'', chart_html = Markup [],
                nominal_chart_html = Markup [], future_table_html = [],
                selected_country = selected_country_code, start_date = None, end_date = None\<rparr>
      in if selected_country_code = ''US'' then
           (us_dashboard US_DASHBOARD_DATA today args
              (pg\<lparr>title := ''U.S. Treasury Debt Issuance Dashboard''\<rparr>), w)
         else
           (case map_of EURO_COUNTRIES selected_country_code of
              Some country_name \<Rightarrow>
                euro_dashboard selected_country_code country_name
                  (pg\<lparr>title := country_name @ '' Debt Issuance Dashboard''\<rparr>) w
            | None \<Rightarrow> (Inr pg, w)))"

section \<open>Example inputs\<close>

text \<open>
  Three fetched records: a four-week bill, a ten-year note, and a record whose maturity
  date and amounts are missing. They are the concrete inputs at which the theorems below
  are instantiated.
\<close>

definition example_records :: "api_row list" where
  "example_records =
     [\<lparr>raw_issue_date = Valid (2024, 1, 15), raw_maturity_date = Valid (2024, 2, 12),
       raw_auction_date = Valid (2024, 1, 10), raw_total_accepted = Valid 30,
       raw_offering_amt = Valid 30, raw_security_term = ''4-Week''\<rparr>,
      \<lparr>raw_issue_date = Valid (2024, 2, 15), raw_maturity_date = Valid (2034, 2, 15),
       raw_auction_date = Valid (2024, 2, 8), raw_total_accepted = Valid 70,
       raw_offering_amt = Valid 70, raw_security_term = ''10-Year''\<rparr>,
      \<lparr>raw_issue_date = Valid (2024, 8, 1), raw_maturity_date = Null,
       raw_auction_date = Garbage, raw_total_accepted = Null,
       raw_offering_amt = Garbage, raw_security_term = ''Unknown''\<rparr>]"

definition example_data :: "us_row list" where
  "example_data = map prepare_row example_records"

definition example_df :: "(date \<times> us_row) list" where
  "example_df = df_filtered example_data (2024, 1, 1) (2024, 12, 31)"

text \<open>
  A world with no cache file; an upstream whose third page fails; an ECB service that has
  two tenors for Germany and none for any other country; a monthly table with a month of
  positive, one of zero and one of negative total; and a table with no rows.
\<close>

definition empty_world :: world where
  "empty_world = \<lparr>us_cache = None, euro_cache = (\<lambda>code. None), stdout = []\<rparr>"

definition failing_requests_get :: "int \<Rightarrow> response" where
  "failing_requests_get page_num =
     (if page_num = 3 then RequestException else Page example_records (Some 4))"

definition example_ecb :: "string \<Rightarrow> string \<Rightarrow> ecb_result" where
  "example_ecb country_code tenor_code =
     (if country_code = ''DE'' \<and> tenor_code = ''S''
        then EcbSeries [((2024, 1, 1), Some 5), ((2024, 2, 1), None), ((2024, 3, 1), Some 7)]
      else if country_code = ''DE'' \<and> tenor_code = ''YA_''
        then EcbSeries [((2024, 1, 1), Some 11)]
      else EcbError)"


definition no_rows_frame :: "rat frame" where
  "no_rows_frame = \<lparr>index = [], columns = [''10Y+'', ''Up to 1Y''], cell = (\<lambda>p b. 0)\<rparr>"

section \<open>Properties of the maturity binner\<close>

lemma assign_maturity_bin_Days:
  "assign_maturity_bin (Days d) =
     (if d \<le> 0 then ''Other''
      else if d < 30 then ''< 1 Month''
      else if d < 91 then ''1-3 Months''
      else if d < 365 then ''3-12 Months''
      else if d < 1095 then ''1-3 Years''
      else if d < 3650 then ''3-10 Years''
      else ''10+ Years'')"
  by (simp add: assign_maturity_bin_def)

lemma assign_maturity_bin_NaN: "assign_maturity_bin NaNDays = ''10+ Years''"
  by (simp add: assign_maturity_bin_def)

lemma assign_maturity_bin_in_order: "assign_maturity_bin d \<in> set US_PLOT_ORDER"
  by (cases d) (simp_all add: assign_maturity_bin_Days assign_maturity_bin_NaN US_PLOT_ORDER_def)

text \<open>
  Claim C1. The claim asks that a duration that is undefined (NaN) is binned as
  \<open>Other\<close>. In the code every comparison of the chain is False on NaN, so an undefined
  duration falls through to the last line and is binned as \<open>10+ Years\<close>, not \<open>Other\<close>.
  A fetched record whose maturity date is null reaches the binner with such a duration.
\<close>

theorem C1_undefined_duration_is_10_plus_years:
  "assign_maturity_bin NaNDays = ''10+ Years'' \<and> assign_maturity_bin NaNDays \<noteq> ''Other''
   \<and> raw_maturity_date (example_records ! 2) = Null
   \<and> duration_days (prepare_row (example_records ! 2)) = NaNDays
   \<and> maturity_bin (prepare_row (example_records ! 2)) = ''10+ Years''"
  by (simp add: assign_maturity_bin_def example_records_def prepare_row_def
      to_datetime_coerce_def dt_days_def Let_def)

text \<open>
  Claim C2, as stated, names the first bucket \<open><1 Month\<close>. The code returns the label
  \<open>< 1 Month\<close>, with a space after the sign, which is also how \<open>US_PLOT_ORDER\<close> of the
  web application spells it: at 15 days the returned string is not \<open><1 Month\<close>.
\<close>

theorem C2_label_spelling_counterexample:
  "(0::int) < 15 \<and> (15::int) < 30 \<and> assign_maturity_bin (Days 15) \<noteq> ''<1 Month''"
  by (simp add: assign_maturity_bin_def)

text \<open>
  Claim C2, amended: for every defined integer duration \<open>d\<close> the binner returns
  \<open>< 1 Month\<close> (spelled as in the code) for \<open>0 < d < 30\<close>, \<open>1-3 Months\<close> for
  \<open>30 \<le> d < 91\<close>, \<open>3-12 Months\<close> for \<open>91 \<le> d < 365\<close>, \<open>1-3 Years\<close> for
  \<open>365 \<le> d < 1095\<close>, \<open>3-10 Years\<close> for \<open>1095 \<le> d < 3650\<close>, \<open>10+ Years\<close> for
  \<open>d \<ge> 3650\<close> and \<open>Other\<close> for \<open>d \<le> 0\<close>; in particular 45 days is \<open>1-3 Months\<close>,
  0 days is \<open>Other\<close> and 3650 days is \<open>10+ Years\<close>.
\<close>

theorem C2_thresholds:
  "(0 < d \<and> d < 30 \<longrightarrow> assign_maturity_bin (Days d) = ''< 1 Month'')
   \<and> (30 \<le> d \<and> d < 91 \<longrightarrow> assign_maturity_bin (Days d) = ''1-3 Months'')
   \<and> (91 \<le> d \<and> d < 365 \<longrightarrow> assign_maturity_bin (Days d) = ''3-12 Months'')
   \<and> (365 \<le> d \<and> d < 1095 \<longrightarrow> assign_maturity_bin (Days d) = ''1-3 Years'')
   \<and> (1095 \<le> d \<and> d < 3650 \<longrightarrow> assign_maturity_bin (Days d) = ''3-10 Years'')
   \<and> (3650 \<le> d \<longrightarrow> assign_maturity_bin (Days d) = ''10+ Years'')
   \<and> (d \<le> 0 \<longrightarrow> assign_maturity_bin (Days d) = ''Other'')
   \<and> assign_maturity_bin (Days 45) = ''1-3 Months''
   \<and> assign_maturity_bin (Days 0) = ''Other''
   \<and> assign_maturity_bin (Days 3650) = ''10+ Years''"
  by (simp add: assign_maturity_bin_Days)

theorem C2_thresholds_witness:
  "(0::int) < 15 \<and> (15::int) < 30 \<and> assign_maturity_bin (Days 15) = ''< 1 Month''
   \<and> (30::int) \<le> 90 \<and> (90::int) < 91 \<and> assign_maturity_bin (Days 90) = ''1-3 Months''
   \<and> (91::int) \<le> 91 \<and> (91::int) < 365 \<and> assign_maturity_bin (Days 91) = ''3-12 Months''
   \<and> (365::int) \<le> 1094 \<and> (1094::int) < 1095 \<and> assign_maturity_bin (Days 1094) = ''1-3 Years''
   \<and> (1095::int) \<le> 1095 \<and> (1095::int) < 3650 \<and> assign_maturity_bin (Days 1095) = ''3-10 Years''
   \<and> (3650::int) \<le> 9000 \<and> assign_maturity_bin (Days 9000) = ''10+ Years''
   \<and> (-3::int) \<le> 0 \<and> assign_maturity_bin (Days (-3)) = ''Other''"
  using C2_thresholds [of 15] C2_thresholds [of 90] C2_thresholds [of 91]
    C2_thresholds [of 1094] C2_thresholds [of 1095] C2_thresholds [of 9000]
    C2_thresholds [of "-3"]
  by simp

section \<open>Helper lemmas on tables\<close>

lemma fold_min_le: "x \<in> set (k # ks) \<Longrightarrow> fold min ks k \<le> (x::int)"
  by (metis List.finite_set Min.set_eq_fold Min_le)

lemma le_fold_max: "x \<in> set (k # ks) \<Longrightarrow> (x::int) \<le> fold max ks k"
  by (metis List.finite_set Max.set_eq_fold Max_ge)

lemma map_of_graph: "map_of (map (\<lambda>p. (p, f p)) ps) p = (if p \<in> set ps then Some (f p) else None)"
  by (induction ps) auto

lemma resample_sum_observed:
  assumes "r \<in> set rs"
  shows "map_of (resample_sum period amount rs) (period r)
           = Some (sum_list (map amount (filter (\<lambda>x. period x = period r) rs)))"
proof -
  from assms obtain k ks where kk: "map period rs = k # ks"
    by (cases rs) auto
  have "period r \<in> set (k # ks)"
    using assms kk by (metis image_eqI set_map)
  then have "period r \<in> set [fold min ks k .. fold max ks k]"
    using fold_min_le [of "period r" k ks] le_fold_max [of "period r" k ks] by simp
  then show ?thesis
    by (simp add: resample_sum_def kk map_of_graph)
qed

lemma resample_sum_Some:
  assumes "map_of (resample_sum period amount rs) p = Some t"
  shows "t = sum_list (map amount (filter (\<lambda>x. period x = p) rs))"
  using assms by (auto simp: resample_sum_def map_of_graph split: list.splits if_splits)


lemma groupby_cell:
  "cell (groupby_sum_unstack period bucket amount rs) p b
     = sum_list (map amount (filter (\<lambda>r. period r = p \<and> bucket r = b) rs))"
  by (simp add: groupby_sum_unstack_def Let_def)

lemma groupby_columns:
  "set (columns (groupby_sum_unstack period bucket amount rs)) = bucket ` set rs"
  "distinct (columns (groupby_sum_unstack period bucket amount rs))"
  by (simp_all add: groupby_sum_unstack_def)

lemma groupby_index:
  "set (index (groupby_sum_unstack period bucket amount rs)) = period ` set rs"
  by (simp add: groupby_sum_unstack_def)





lemma sum_list_all_zero: "\<forall>a\<in>set xs. a = (0::rat) \<Longrightarrow> sum_list xs = 0"
  by (induction xs) auto

lemma pct_columns: "columns (quarterly_mix_pct df) = columns (quarterly_mix_nominal df)"
  by (simp add: quarterly_mix_pct_def frame_map_def div_axis0_def)

lemma pct_cell:
  "cell (quarterly_mix_pct df) p b =
     fmul (fillna 0
       (if p \<in> set (index (quarterly_mix_nominal df))
        then (case map_of (quarterly_issuance df) p of
                Some t \<Rightarrow> fdiv (cell (quarterly_mix_nominal df) p b) t | None \<Rightarrow> NaN)
        else NaN)) 100"
  by (simp add: quarterly_mix_pct_def frame_map_def div_axis0_def)

lemma pct_index:
  "set (index (quarterly_mix_pct df))
     = set (index (quarterly_mix_nominal df)) \<union> fst ` set (quarterly_issuance df)"
  by (auto simp: quarterly_mix_pct_def frame_map_def div_axis0_def)

lemma issuance_total:
  assumes "map_of (quarterly_issuance df) p = Some t"
  shows "t = sum_list (map (\<lambda>x. total_accepted (snd x)) (filter (\<lambda>x. quarter_key (fst x) = p) df))"
  using assms unfolding quarterly_issuance_def by (rule resample_sum_Some)


lemma nominal_index_issuance:
  assumes "p \<in> set (index (quarterly_mix_nominal df))"
  shows "\<exists>t. map_of (quarterly_issuance df) p = Some t"
proof -
  from assms obtain x where "x \<in> set df" "p = quarter_key (fst x)"
    by (auto simp: quarterly_mix_nominal_def groupby_index)
  then show ?thesis
    using resample_sum_observed [of x df "\<lambda>x. quarter_key (fst x)" "\<lambda>x. total_accepted (snd x)"]
    by (simp add: quarterly_issuance_def)
qed



lemma set_map_filter: "set (List.map_filter f xs) = {y. \<exists>x\<in>set xs. f x = Some y}"
  by (induction xs) (auto simp: List.map_filter_simps split: option.splits)

lemma df_filtered_rows: "x \<in> set (df_filtered data s e) \<Longrightarrow> snd x \<in> set data"
  by (induction data) (auto simp: df_filtered_def List.map_filter_simps split: option.splits if_splits)

subsection \<open>The example evaluated\<close>

lemma example_prepare: "prepare_us_data example_records = Inr example_data"
  by (simp add: prepare_us_data_def example_records_def example_data_def)

lemma example_data_eval:
  "example_data =
     [\<lparr>issue_date = Some (2024, 1, 15), maturity_date = Some (2024, 2, 12),
       auction_date = Some (2024, 1, 10), total_accepted = 30, offering_amt = 30,
       security_term = ''4-Week'', duration_days = Days 28, maturity_bin = ''< 1 Month''\<rparr>,
      \<lparr>issue_date = Some (2024, 2, 15), maturity_date = Some (2034, 2, 15),
       auction_date = Some (2024, 2, 8), total_accepted = 70, offering_amt = 70,
       security_term = ''10-Year'', duration_days = Days 3653, maturity_bin = ''10+ Years''\<rparr>,
      \<lparr>issue_date = Some (2024, 8, 1), maturity_date = None,
       auction_date = None, total_accepted = 0, offering_amt = 0,
       security_term = ''Unknown'', duration_days = NaNDays, maturity_bin = ''10+ Years''\<rparr>]"
  by (simp add: example_data_def example_records_def prepare_row_def to_datetime_coerce_def
      to_numeric_fillna_def dt_days_def days_from_civil_def assign_maturity_bin_def Let_def)

lemma example_df_eval:
  "example_df = map (\<lambda>r. (case issue_date r of Some d \<Rightarrow> d | None \<Rightarrow> (0, 0, 0), r)) example_data"
  by (simp add: example_df_def df_filtered_def example_data_eval List.map_filter_simps)

lemma example_issuance:
  "quarterly_issuance example_df = [(8096, 100), (8097, 0), (8098, 0)]"
  by (simp add: quarterly_issuance_def resample_sum_def example_df_eval example_data_eval
      quarter_key_def)

lemma example_nominal_index: "index (quarterly_mix_nominal example_df) = [8096, 8098]"
  by (simp add: quarterly_mix_nominal_def groupby_sum_unstack_def example_df_eval
      example_data_eval quarter_key_def)

lemma example_nominal_columns:
  "columns (quarterly_mix_nominal example_df) = [''10+ Years'', ''< 1 Month'']"
  by (simp add: quarterly_mix_nominal_def groupby_sum_unstack_def example_df_eval
      example_data_eval)

lemma example_pct_index: "index (quarterly_mix_pct example_df) = [8096, 8097, 8098]"
  by (simp add: quarterly_mix_pct_def frame_map_def div_axis0_def example_issuance
      example_nominal_index)

section \<open>Properties of the quarterly tables of the US dashboard\<close>



text \<open>
  Claim C4. With non-negative amounts, every period of the percentage table has a period
  total, and when that total is zero every bucket of the period is 0: the division gives
  NaN (it does not raise) and \<^verbatim>\<open>fillna(0)\<close> replaces it. This covers a quarter with no
  record between the first and the last one as well as a quarter whose records all
  carry the amount zero.
\<close>

theorem C4_zero_total_gives_zero:
  assumes nonneg: "\<forall>x\<in>set df. 0 \<le> total_accepted (snd x)"
    and p: "p \<in> set (index (quarterly_mix_pct df))"
  shows "(\<exists>t. map_of (quarterly_issuance df) p = Some t)
       \<and> (map_of (quarterly_issuance df) p = Some 0 \<longrightarrow>
            (\<forall>b\<in>set (columns (quarterly_mix_pct df)). cell (quarterly_mix_pct df) p b = Val 0))"
proof
  show "\<exists>t. map_of (quarterly_issuance df) p = Some t"
    using p nominal_index_issuance [of p df]
    by (auto simp: pct_index) (metis map_of_eq_None_iff not_None_eq fst_conv image_eqI)
next
  show "map_of (quarterly_issuance df) p = Some 0 \<longrightarrow>
          (\<forall>b\<in>set (columns (quarterly_mix_pct df)). cell (quarterly_mix_pct df) p b = Val 0)"
  proof (intro impI ballI)
    fix b
    assume z: "map_of (quarterly_issuance df) p = Some 0"
    let ?amts = "map (\<lambda>x. total_accepted (snd x)) (filter (\<lambda>x. quarter_key (fst x) = p) df)"
    have "sum_list ?amts = 0"
      using issuance_total [OF z] by simp
    moreover have "\<forall>a\<in>set ?amts. 0 \<le> a"
      using nonneg by auto
    ultimately have zero: "\<forall>a\<in>set ?amts. a = 0"
      using sum_list_nonneg_eq_0_iff [of ?amts] by blast
    have "cell (quarterly_mix_nominal df) p b
        = sum_list (map (\<lambda>x. total_accepted (snd x))
            (filter (\<lambda>x. quarter_key (fst x) = p \<and> maturity_bin (snd x) = b) df))"
      by (simp add: quarterly_mix_nominal_def groupby_cell)
    also have "\<dots> = 0"
      using zero by (intro sum_list_all_zero) auto
    finally have "cell (quarterly_mix_nominal df) p b = 0" .
    then show "cell (quarterly_mix_pct df) p b = Val 0"
      using z by (simp add: pct_cell fdiv_def)
  qed
qed

theorem C4_zero_total_gives_zero_witness:
  "list_all (\<lambda>x. 0 \<le> total_accepted (snd x)) example_df
   \<and> 8097 \<in> set (index (quarterly_mix_pct example_df))
   \<and> map_of (quarterly_issuance example_df) 8097 = Some 0
   \<and> map (cell (quarterly_mix_pct example_df) 8097) (columns (quarterly_mix_pct example_df))
       = [Val 0, Val 0]
   \<and> 8098 \<in> set (index (quarterly_mix_pct example_df))
   \<and> map_of (quarterly_issuance example_df) 8098 = Some 0
   \<and> map (cell (quarterly_mix_pct example_df) 8098) (columns (quarterly_mix_pct example_df))
       = [Val 0, Val 0]"
proof -
  have nn: "\<forall>x\<in>set example_df. 0 \<le> total_accepted (snd x)"
    by (simp add: example_df_eval example_data_eval)
  have p: "8097 \<in> set (index (quarterly_mix_pct example_df))"
    and q: "8098 \<in> set (index (quarterly_mix_pct example_df))"
    by (simp_all add: example_pct_index)
  have t: "map_of (quarterly_issuance example_df) 8097 = Some 0"
    and u: "map_of (quarterly_issuance example_df) 8098 = Some 0"
    by (simp_all add: example_issuance)
  show ?thesis
    using nn p q t u C4_zero_total_gives_zero [OF nn p] C4_zero_total_gives_zero [OF nn q]
    by (simp add: pct_columns example_nominal_columns list_all_iff)
qed

text \<open>
  Claim C5. For every sequence of fetched records that \<open>update_us_cache\<close> prepares for the
  cache, and every date window, the column labels of the aggregated quarterly table are
  among the seven labels of \<open>US_PLOT_ORDER\<close>.
\<close>

theorem C5_columns_are_fixed_labels:
  assumes "prepare_us_data all_records = Inr data"
  shows "set (columns (quarterly_mix_nominal (df_filtered data start end_d))) \<subseteq> set US_PLOT_ORDER"
proof
  fix b
  assume "b \<in> set (columns (quarterly_mix_nominal (df_filtered data start end_d)))"
  then obtain x where x: "x \<in> set (df_filtered data start end_d)" and b: "b = maturity_bin (snd x)"
    by (auto simp: quarterly_mix_nominal_def groupby_columns)
  have "data = map prepare_row all_records"
    using assms by (simp add: prepare_us_data_def split: if_splits)
  with df_filtered_rows [OF x] obtain r where "snd x = prepare_row r"
    by auto
  then have "b = assign_maturity_bin (duration_days (prepare_row r))"
    using b by (simp add: prepare_row_def Let_def)
  then show "b \<in> set US_PLOT_ORDER"
    by (simp add: assign_maturity_bin_in_order)
qed

theorem C5_columns_are_fixed_labels_witness:
  "prepare_us_data example_records = Inr example_data
   \<and> columns (quarterly_mix_nominal (df_filtered example_data (2024, 1, 1) (2024, 12, 31)))
       = [''10+ Years'', ''< 1 Month'']
   \<and> set (columns (quarterly_mix_nominal (df_filtered example_data (2024, 1, 1) (2024, 12, 31))))
       \<subseteq> set US_PLOT_ORDER"
  using C5_columns_are_fixed_labels [OF example_prepare, of "(2024, 1, 1)" "(2024, 12, 31)"]
    example_prepare example_nominal_columns
  by (simp add: example_df_def)

section \<open>Properties of the Euro refresh\<close>

lemma fetch_tenors_frames:
  "fst (fetch_tenors ecb_data ts w) =
     List.map_filter (\<lambda>(tenor_name, tenor_code).
       case ecb_data tenor_code of
         EcbSeries series \<Rightarrow> Some (tenor_name, series)
       | EcbError \<Rightarrow> None) ts"
  by (induction ecb_data ts w rule: fetch_tenors.induct)
     (auto simp: List.map_filter_simps Let_def split: ecb_result.splits prod.splits)

lemma print_caches [simp]:
  "us_cache (print s w) = us_cache w" "euro_cache (print s w) = euro_cache w"
  by (simp_all add: print_def)

lemma fetch_tenors_caches:
  "us_cache (snd (fetch_tenors ecb_data ts w)) = us_cache w
   \<and> euro_cache (snd (fetch_tenors ecb_data ts w)) = euro_cache w"
  by (induction ecb_data ts w rule: fetch_tenors.induct)
     (auto simp: Let_def split: ecb_result.splits prod.splits)

lemma get_and_process_known:
  assumes "map_of EURO_COUNTRIES code = Some name"
  shows "fst (get_and_process_euro_data ecb code w) =
           Inr (if successful_series (ecb code) = [] then None
                else Some (monthly_summary_of (df_long (successful_series (ecb code)))))"
    and "euro_cache (snd (get_and_process_euro_data ecb code w)) = euro_cache w"
    and "us_cache (snd (get_and_process_euro_data ecb code w)) = us_cache w"
proof -
  let ?w1 = "print (''--- Fetching EURO data for '' @ name @ '' ('' @ code @ '') ---'') w"
  obtain fs w2 where f: "fetch_tenors (ecb code) EURO_TENORS ?w1 = (fs, w2)"
    by (cases "fetch_tenors (ecb code) EURO_TENORS ?w1")
  have fs: "fs = successful_series (ecb code)"
    using fetch_tenors_frames [of "ecb code" EURO_TENORS ?w1] f
    by (simp add: successful_series_def)
  have w2: "us_cache w2 = us_cache w \<and> euro_cache w2 = euro_cache w"
    using fetch_tenors_caches [of "ecb code" EURO_TENORS ?w1] f by simp
  show "fst (get_and_process_euro_data ecb code w) =
           Inr (if successful_series (ecb code) = [] then None
                else Some (monthly_summary_of (df_long (successful_series (ecb code)))))"
    using assms f fs by (simp add: get_and_process_euro_data_def Let_def)
  show "euro_cache (snd (get_and_process_euro_data ecb code w)) = euro_cache w"
    using assms f w2 by (simp add: get_and_process_euro_data_def Let_def)
  show "us_cache (snd (get_and_process_euro_data ecb code w)) = us_cache w"
    using assms f w2 by (simp add: get_and_process_euro_data_def Let_def)
qed

lemma update_euro_loop_result:
  assumes "\<forall>c\<in>set codes. \<exists>name. map_of EURO_COUNTRIES c = Some name" and "distinct codes"
  shows "fst (update_euro_loop ecb codes w) = None
    \<and> us_cache (snd (update_euro_loop ecb codes w)) = us_cache w
    \<and> euro_cache (snd (update_euro_loop ecb codes w)) code =
        (if code \<in> set codes \<and> successful_series (ecb code) \<noteq> []
         then Some (monthly_summary_of (df_long (successful_series (ecb code))))
         else euro_cache w code)"
  using assms
proof (induction codes arbitrary: w)
  case Nil
  then show ?case by simp
next
  case (Cons c codes)
  from Cons.prems obtain name where name: "map_of EURO_COUNTRIES c = Some name"
    by auto
  obtain r w1 where g: "get_and_process_euro_data ecb c w = (r, w1)"
    by (cases "get_and_process_euro_data ecb c w")
  have r: "r = Inr (if successful_series (ecb c) = [] then None
                else Some (monthly_summary_of (df_long (successful_series (ecb c)))))"
    and w1: "euro_cache w1 = euro_cache w" "us_cache w1 = us_cache w"
    using get_and_process_known [OF name, of ecb w] g by simp_all
  have IH: "\<And>w'. fst (update_euro_loop ecb codes w') = None
    \<and> us_cache (snd (update_euro_loop ecb codes w')) = us_cache w'
    \<and> euro_cache (snd (update_euro_loop ecb codes w')) code =
        (if code \<in> set codes \<and> successful_series (ecb code) \<noteq> []
         then Some (monthly_summary_of (df_long (successful_series (ecb code))))
         else euro_cache w' code)"
    using Cons.IH Cons.prems by simp
  have nc: "c \<notin> set codes"
    using Cons.prems by simp
  show ?case
  proof (cases "successful_series (ecb c) = []")
    case True
    then show ?thesis
      using g r w1 IH [of w1] nc by auto
  next
    case False
    then show ?thesis
      using g r w1 nc
        IH [of "print (''Euro data cache for '' @ c @ '' updated and saved to euro_data_'' @ c @ ''.pkl'')
               (w1\<lparr>euro_cache := (euro_cache w1)(c \<mapsto> monthly_summary_of (df_long (successful_series (ecb c))))\<rparr>)"]
      by auto
  qed
qed

lemma df_long_tenors: "r \<in> set (df_long frames) \<Longrightarrow> fst (snd r) \<in> fst ` set frames"
  by (auto simp: df_long_def set_map_filter split: option.splits prod.splits) force

lemma monthly_summary_columns:
  "set (columns (monthly_summary_of (df_long frames))) \<subseteq> set (map fst frames)"
  using df_long_tenors [of _ frames]
  by (auto simp: monthly_summary_of_def groupby_sum_unstack_def)

lemma example_ecb_DE:
  "successful_series (example_ecb ''DE'') =
     [(''Up to 1Y'', [((2024, 1, 1), Some 5), ((2024, 2, 1), None), ((2024, 3, 1), Some 7)]),
      (''10Y+'', [((2024, 1, 1), Some 11)])]"
  by (simp add: successful_series_def example_ecb_def EURO_TENORS_def List.map_filter_simps)

lemma example_ecb_IT: "successful_series (example_ecb ''IT'') = []"
  by (simp add: successful_series_def example_ecb_def EURO_TENORS_def List.map_filter_simps)

lemma example_ecb_columns:
  "columns (monthly_summary_of (df_long (successful_series (example_ecb ''DE''))))
     = [''10Y+'', ''Up to 1Y'']"
  by (simp add: example_ecb_DE monthly_summary_of_def groupby_sum_unstack_def df_long_def
      List.map_filter_simps)

text \<open>
  Claim C7. For every country of \<open>EURO_COUNTRIES\<close>: the loop over the tenors collects
  exactly the tenors whose query succeeded, whatever the other queries did; the refresh
  raises nothing; when no tenor succeeded the cache file of the country is left as it
  was, otherwise it holds the monthly summary of the collected series; and the columns
  of that summary are among the tenors that succeeded.
\<close>

theorem C7_failed_tenors_are_skipped:
  assumes "code \<in> set (map fst EURO_COUNTRIES)"
  shows "fst (fetch_tenors (ecb code) EURO_TENORS w0) = successful_series (ecb code)
    \<and> fst (update_euro_cache ecb w) = None
    \<and> euro_cache (snd (update_euro_cache ecb w)) code =
        (if successful_series (ecb code) = [] then euro_cache w code
         else Some (monthly_summary_of (df_long (successful_series (ecb code)))))
    \<and> set (columns (monthly_summary_of (df_long (successful_series (ecb code)))))
        \<subseteq> set (map fst (successful_series (ecb code)))"
proof -
  have keys: "\<forall>c\<in>set (map fst EURO_COUNTRIES). \<exists>name. map_of EURO_COUNTRIES c = Some name"
    by (simp add: EURO_COUNTRIES_def)
  have d: "distinct (map fst EURO_COUNTRIES)"
    by (simp add: EURO_COUNTRIES_def)
  show ?thesis
    using update_euro_loop_result [OF keys d, of ecb
        "print ''--- Starting EURO Data Update ---'' w" code] assms
    by (simp add: update_euro_cache_def fetch_tenors_frames successful_series_def [symmetric]
        monthly_summary_columns del: set_map)
qed

theorem C7_failed_tenors_are_skipped_witness:
  "''DE'' \<in> set (map fst EURO_COUNTRIES)
   \<and> map fst (fst (fetch_tenors (example_ecb ''DE'') EURO_TENORS empty_world))
       = [''Up to 1Y'', ''10Y+'']
   \<and> fst (update_euro_cache example_ecb empty_world) = None
   \<and> euro_cache (snd (update_euro_cache example_ecb empty_world)) ''DE''
       = Some (monthly_summary_of (df_long (successful_series (example_ecb ''DE''))))
   \<and> columns (monthly_summary_of (df_long (successful_series (example_ecb ''DE''))))
       = [''10Y+'', ''Up to 1Y'']
   \<and> ''IT'' \<in> set (map fst EURO_COUNTRIES)
   \<and> fst (fetch_tenors (example_ecb ''IT'') EURO_TENORS empty_world) = []
   \<and> euro_cache (snd (update_euro_cache example_ecb empty_world)) ''IT'' = None"
proof -
  have de: "''DE'' \<in> set (map fst EURO_COUNTRIES)" and it: "''IT'' \<in> set (map fst EURO_COUNTRIES)"
    by (simp_all add: EURO_COUNTRIES_def)
  have e: "euro_cache empty_world ''IT'' = None"
    by (simp add: empty_world_def)
  show ?thesis
    using de it e example_ecb_columns
      C7_failed_tenors_are_skipped [OF de, of example_ecb empty_world empty_world]
      C7_failed_tenors_are_skipped [OF it, of example_ecb empty_world empty_world]
    by (simp add: example_ecb_DE example_ecb_IT del: set_map)
qed

lemma update_euro_cache_returns:
  "fst (update_euro_cache ecb w) = None
   \<and> us_cache (snd (update_euro_cache ecb w)) = us_cache w"
proof -
  have keys: "\<forall>c\<in>set (map fst EURO_COUNTRIES). \<exists>name. map_of EURO_COUNTRIES c = Some name"
    by (simp add: EURO_COUNTRIES_def)
  have d: "distinct (map fst EURO_COUNTRIES)"
    by (simp add: EURO_COUNTRIES_def)
  show ?thesis
    using update_euro_loop_result [OF keys d, of ecb
        "print ''--- Starting EURO Data Update ---'' w" "''DE''"]
    by (simp add: update_euro_cache_def)
qed

section \<open>Properties of the US refresh\<close>

lemma fetch_pages_fails:
  "p \<in> set ps \<Longrightarrow> requests_get p = RequestException
     \<Longrightarrow> fetch_pages requests_get ps all_records = None"
  by (induction ps arbitrary: all_records) (auto split: response.splits)

lemma fetch_records_fails:
  assumes "requests_get 1 = RequestException
     \<or> (\<exists>data meta p. requests_get 1 = Page data meta \<and> 2 \<le> p \<and> p \<le> total_pages meta
           \<and> requests_get p = RequestException)"
  shows "fetch_records requests_get = None"
  using assms
proof
  assume "requests_get 1 = RequestException"
  then show ?thesis by (simp add: fetch_records_def)
next
  assume "\<exists>data meta p. requests_get 1 = Page data meta \<and> 2 \<le> p \<and> p \<le> total_pages meta
           \<and> requests_get p = RequestException"
  then obtain data meta p where 1: "requests_get 1 = Page data meta"
    and p: "2 \<le> p" "p \<le> total_pages meta" "requests_get p = RequestException"
    by blast
  have "p \<in> set [2 .. total_pages meta]"
    using p by simp
  then show ?thesis
    using 1 p(3) by (simp add: fetch_records_def fetch_pages_fails)
qed

text \<open>
  Claim C6, as stated, ends with a non-zero exit status. In the code \<open>fetch_us_data\<close>
  catches the exception and returns None, \<open>update_us_cache\<close> prints and returns, and the
  main block runs to its end: with a failing third page the daily refresh exits with
  status 0.
\<close>

theorem C6_exit_status_counterexample:
  "fetch_records failing_requests_get = None
   \<and> fst (main [''update_data.py'', ''daily''] failing_requests_get example_ecb
          empty_world) = 0"
  by (simp add: main_def update_us_cache_def fetch_us_data_def fetch_records_def
      failing_requests_get_def total_pages_def print_def exit_status_def Let_def)

text \<open>
  Claim C6, amended: in every run of the US refresh in which the first page request
  fails, or any later page up to \<open>total-pages\<close> fails, \<open>update_us_cache\<close> returns normally
  with the world unchanged except for four printed lines (among them the two failure
  messages): no cache file is written and the prior snapshot stays as it was. The
  refresh run with the argument \<open>daily\<close> then ends with exit status 0; the run with no
  such argument goes on to the Euro refresh, leaves the US cache as it was and ends with
  exit status 0 as well.
\<close>

theorem C6_fetch_failure_keeps_cache:
  assumes "requests_get 1 = RequestException
     \<or> (\<exists>data meta p. requests_get 1 = Page data meta \<and> 2 \<le> p \<and> p \<le> total_pages meta
           \<and> requests_get p = RequestException)"
  shows "update_us_cache requests_get w =
           (None, w\<lparr>stdout := stdout w @
              [''--- Starting US Data Update ---'',
               ''Fetching live US data from /v1/accounting/od/auctions_query?filter=issue_date:gte:2000-01-01...'',
               ''CRITICAL: Failed to fetch US data from /v1/accounting/od/auctions_query'',
               ''US data fetch failed. Cache not updated.'']\<rparr>)
         \<and> us_cache (snd (update_us_cache requests_get w)) = us_cache w
         \<and> (1 < length argv \<and> argv ! 1 = ''daily'' \<longrightarrow>
              main argv requests_get ecb w =
                (0, w\<lparr>stdout := stdout w @
                  [''--- Starting US Data Update ---'',
                   ''Fetching live US data from /v1/accounting/od/auctions_query?filter=issue_date:gte:2000-01-01...'',
                   ''CRITICAL: Failed to fetch US data from /v1/accounting/od/auctions_query'',
                   ''US data fetch failed. Cache not updated.'']\<rparr>))
         \<and> (\<not> (1 < length argv \<and> (argv ! 1 = ''daily'' \<or> argv ! 1 = ''monthly'')) \<longrightarrow>
              main argv requests_get ecb w =
                (0, snd (update_euro_cache ecb (w\<lparr>stdout := stdout w @
                  [''Updating all data sources...'',
                   ''--- Starting US Data Update ---'',
                   ''Fetching live US data from /v1/accounting/od/auctions_query?filter=issue_date:gte:2000-01-01...'',
                   ''CRITICAL: Failed to fetch US data from /v1/accounting/od/auctions_query'',
                   ''US data fetch failed. Cache not updated.'']\<rparr>)))
              \<and> us_cache (snd (main argv requests_get ecb w)) = us_cache w)"
proof -
  let ?lines = "[''--- Starting US Data Update ---'',
     ''Fetching live US data from /v1/accounting/od/auctions_query?filter=issue_date:gte:2000-01-01...'',
     ''CRITICAL: Failed to fetch US data from /v1/accounting/od/auctions_query'',
     ''US data fetch failed. Cache not updated.'']"
  have u: "update_us_cache requests_get v = (None, v\<lparr>stdout := stdout v @ ?lines\<rparr>)" for v
    using fetch_records_fails [OF assms]
    by (simp add: update_us_cache_def fetch_us_data_def print_def Let_def)
  have daily: "main argv requests_get ecb w = (0, w\<lparr>stdout := stdout w @ ?lines\<rparr>)"
    if "1 < length argv \<and> argv ! 1 = ''daily''"
    using that u [of w] by (simp add: main_def exit_status_def)
  have all: "main argv requests_get ecb w =
      (0, snd (update_euro_cache ecb (w\<lparr>stdout := stdout w @ ''Updating all data sources...'' # ?lines\<rparr>)))
      \<and> us_cache (snd (main argv requests_get ecb w)) = us_cache w"
    if n: "\<not> (1 < length argv \<and> (argv ! 1 = ''daily'' \<or> argv ! 1 = ''monthly''))"
  proof -
    let ?w1 = "w\<lparr>stdout := stdout w @ ''Updating all data sources...'' # ?lines\<rparr>"
    have w1: "update_us_cache requests_get (print ''Updating all data sources...'' w) = (None, ?w1)"
      using u [of "print ''Updating all data sources...'' w"] by (simp add: print_def)
    obtain r w2 where e: "update_euro_cache ecb ?w1 = (r, w2)"
      by (cases "update_euro_cache ecb ?w1")
    have r: "r = None" and c: "us_cache w2 = us_cache w"
      using update_euro_cache_returns [of ecb ?w1] e by simp_all
    have m: "main argv requests_get ecb w = (exit_status r, w2)"
      using n w1 e by (auto simp: main_def)
    show ?thesis
      using m r c e by (simp add: exit_status_def)
  qed
  show ?thesis
    using u [of w] daily all by (simp add: update_euro_cache_returns)
qed

theorem C6_fetch_failure_keeps_cache_witness:
  "failing_requests_get 1 = Page example_records (Some 4)
   \<and> (2::int) \<le> 3 \<and> 3 \<le> total_pages (Some 4)
   \<and> failing_requests_get 3 = RequestException
   \<and> us_cache (snd (update_us_cache failing_requests_get
        (empty_world\<lparr>us_cache := Some example_data\<rparr>))) = Some example_data
   \<and> fst (main [''update_data.py'', ''daily''] failing_requests_get example_ecb
        (empty_world\<lparr>us_cache := Some example_data\<rparr>)) = 0
   \<and> us_cache (snd (main [''update_data.py'', ''daily''] failing_requests_get example_ecb
        (empty_world\<lparr>us_cache := Some example_data\<rparr>))) = Some example_data
   \<and> fst (main [''update_data.py''] failing_requests_get example_ecb
        (empty_world\<lparr>us_cache := Some example_data\<rparr>)) = 0
   \<and> us_cache (snd (main [''update_data.py''] failing_requests_get example_ecb
        (empty_world\<lparr>us_cache := Some example_data\<rparr>))) = Some example_data"
proof -
  have h: "failing_requests_get 1 = RequestException
     \<or> (\<exists>data meta p. failing_requests_get 1 = Page data meta \<and> 2 \<le> p \<and> p \<le> total_pages meta
           \<and> failing_requests_get p = RequestException)"
    by (rule disjI2, rule exI [of _ example_records], rule exI [of _ "Some 4"], rule exI [of _ 3])
       (simp add: failing_requests_get_def total_pages_def)
  have e: "failing_requests_get 1 = Page example_records (Some 4)
      \<and> (2::int) \<le> 3 \<and> 3 \<le> total_pages (Some 4)
      \<and> failing_requests_get 3 = RequestException"
    by (simp add: failing_requests_get_def total_pages_def)
  show ?thesis
    using e
      C6_fetch_failure_keeps_cache [OF h, of "empty_world\<lparr>us_cache := Some example_data\<rparr>"
        "[''update_data.py'', ''daily'']" example_ecb]
      C6_fetch_failure_keeps_cache [OF h, of "empty_world\<lparr>us_cache := Some example_data\<rparr>"
        "[''update_data.py'']" example_ecb]
    by (simp add: empty_world_def update_euro_cache_returns)
qed

section \<open>Properties of the web application\<close>

lemma country_not_US: "map_of EURO_COUNTRIES code = Some country_name \<Longrightarrow> code \<noteq> ''US''"
  by (auto simp: EURO_COUNTRIES_def split: if_splits)

lemma create_charts_not_missing:
  "fst (create_euro_plotly_charts (Some t) country_name)
     \<noteq> Markup (''<p>Euro data cache for '' @ country_name
           @ '' is empty. Please run the update script.</p>'')"
  by (simp add: create_euro_plotly_charts_def)

text \<open>
  Claim C8, as stated, is about the cache file at the time of the request. The US cache
  is read once, when the application starts: started with a cache file that is removed
  afterwards, the handler still answers a request for the US with the charts of the
  loaded data, not with the placeholder.
\<close>

theorem C8_cache_deleted_after_start_counterexample:
  "fst (load_US_DASHBOARD_DATA (empty_world\<lparr>us_cache := Some example_data\<rparr>)) = Inr example_data
   \<and> us_cache empty_world = None
   \<and> (case fst (dashboard example_data (2024, 6, 1)
                  \<lparr>arg_country = Some ''US'', arg_start_date = None, arg_end_date = None\<rparr>
                  empty_world) of
         Inl e \<Rightarrow> False
       | Inr pg \<Rightarrow>
           (case chart_html pg of
              Plot fig \<Rightarrow> map fst (traces fig) = [''< 1 Month'', ''10+ Years'']
            | Markup m \<Rightarrow> False
            | AuctionTable t \<Rightarrow> False))"
  apply (simp add: load_US_DASHBOARD_DATA_def read_pickle_def empty_world_def dashboard_def
      us_dashboard_def Let_def)
  apply (simp add: example_data_eval List.map_filter_simps df_filtered_def)
  apply (simp add: area_traces_def US_PLOT_ORDER_def quarterly_mix_pct_def frame_map_def
      div_axis0_def quarterly_mix_nominal_def quarterly_issuance_def groupby_sum_unstack_def
      resample_sum_def quarter_key_def column_def fsum_def fdiv_def Let_def)
  done

text \<open>
  Claim C8, amended: when the US cache file is absent as the application starts, the
  loaded data is the empty table and every request for the US (the default country) gets
  the placeholder in place of both charts, whatever the files are at the time of the
  request; when the cache file of a Euro country is absent as the request is served, the
  request gets the placeholder of that country. In both cases the handler returns a page
  and raises nothing.
\<close>

theorem C8_missing_cache_gives_placeholder:
  "(us_cache w0 = None \<longrightarrow>
      load_US_DASHBOARD_DATA w0 =
        (Inr [], print ''WARNING: US cache file not found. US charts will be empty until the update script is run.'' w0)
      \<and> (arg_country args = None \<or> arg_country args = Some ''US'' \<longrightarrow>
           dashboard [] today args w =
             (Inr \<lparr>title = ''U.S. Treasury Debt Issuance Dashboard'',
                   chart_html = Markup ''<p>US data cache is empty. Please run the update script.</p>'',
                   nominal_chart_html = Markup ''<p>US data cache is empty. Please run the update script.</p>'',
                   future_table_html = [], selected_country = ''US'',
                   start_date = None, end_date = None\<rparr>, w)))
   \<and> (map_of EURO_COUNTRIES code = Some country_name \<and> arg_country args = Some code
        \<and> euro_cache w code = None \<longrightarrow>
         dashboard US_DASHBOARD_DATA today args w =
           (Inr \<lparr>title = country_name @ '' Debt Issuance Dashboard'',
                 chart_html = Markup (''<p>Euro data cache for '' @ country_name
                     @ '' is empty. Please run the update script.</p>''),
                 nominal_chart_html = Markup (''<p>Euro data cache for '' @ country_name
                     @ '' is empty. Please run the update script.</p>''),
                 future_table_html = [], selected_country = code,
                 start_date = None, end_date = None\<rparr>,
            print (''WARNING: EURO cache file for '' @ code
                    @ '' not found. Charts will be empty until the update script is run.'') w))"
proof (intro conjI impI)
  assume "us_cache w0 = None"
  then show "load_US_DASHBOARD_DATA w0 =
        (Inr [], print ''WARNING: US cache file not found. US charts will be empty until the update script is run.'' w0)"
    by (simp add: load_US_DASHBOARD_DATA_def read_pickle_def)
next
  assume "arg_country args = None \<or> arg_country args = Some ''US''"
  then show "dashboard [] today args w =
             (Inr \<lparr>title = ''U.S. Treasury Debt Issuance Dashboard'',
                   chart_html = Markup ''<p>US data cache is empty. Please run the update script.</p>'',
                   nominal_chart_html = Markup ''<p>US data cache is empty. Please run the update script.</p>'',
                   future_table_html = [], selected_country = ''US'',
                   start_date = None, end_date = None\<rparr>, w)"
    by (auto simp: dashboard_def us_dashboard_def Let_def)
next
  assume a: "map_of EURO_COUNTRIES code = Some country_name \<and> arg_country args = Some code
        \<and> euro_cache w code = None"
  then have "code \<noteq> ''US''"
    using country_not_US by blast
  then show "dashboard US_DASHBOARD_DATA today args w =
           (Inr \<lparr>title = country_name @ '' Debt Issuance Dashboard'',
                 chart_html = Markup (''<p>Euro data cache for '' @ country_name
                     @ '' is empty. Please run the update script.</p>''),
                 nominal_chart_html = Markup (''<p>Euro data cache for '' @ country_name
                     @ '' is empty. Please run the update script.</p>''),
                 future_table_html = [], selected_country = code,
                 start_date = None, end_date = None\<rparr>,
            print (''WARNING: EURO cache file for '' @ code
                    @ '' not found. Charts will be empty until the update script is run.'') w)"
    using a by (simp add: dashboard_def euro_dashboard_def read_pickle_def Let_def)
qed

theorem C8_missing_cache_gives_placeholder_witness:
  "us_cache empty_world = None
   \<and> fst (load_US_DASHBOARD_DATA empty_world) = Inr []
   \<and> arg_country \<lparr>arg_country = None, arg_start_date = None, arg_end_date = None\<rparr> = None
   \<and> fst (dashboard [] (2024, 6, 1)
            \<lparr>arg_country = None, arg_start_date = None, arg_end_date = None\<rparr> empty_world) =
        Inr \<lparr>title = ''U.S. Treasury Debt Issuance Dashboard'',
             chart_html = Markup ''<p>US data cache is empty. Please run the update script.</p>'',
             nominal_chart_html = Markup ''<p>US data cache is empty. Please run the update script.</p>'',
             future_table_html = [], selected_country = ''US'',
             start_date = None, end_date = None\<rparr>
   \<and> map_of EURO_COUNTRIES ''FR'' = Some ''France''
   \<and> euro_cache empty_world ''FR'' = None
   \<and> fst (dashboard example_data (2024, 6, 1)
            \<lparr>arg_country = Some ''FR'', arg_start_date = None, arg_end_date = None\<rparr> empty_world) =
        Inr \<lparr>title = ''France Debt Issuance Dashboard'',
             chart_html = Markup ''<p>Euro data cache for France is empty. Please run the update script.</p>'',
             nominal_chart_html = Markup ''<p>Euro data cache for France is empty. Please run the update script.</p>'',
             future_table_html = [], selected_country = ''FR'',
             start_date = None, end_date = None\<rparr>"
proof -
  have u: "us_cache empty_world = None" and e: "euro_cache empty_world ''FR'' = None"
    by (simp_all add: empty_world_def)
  have m: "map_of EURO_COUNTRIES ''FR'' = Some ''France''"
    by (simp add: EURO_COUNTRIES_def)
  show ?thesis
    using u e m
      C8_missing_cache_gives_placeholder [of empty_world
        "\<lparr>arg_country = None, arg_start_date = None, arg_end_date = None\<rparr>" "(2024, 6, 1)"
        empty_world "''XX''" "''None''" example_data]
      C8_missing_cache_gives_placeholder [of empty_world
        "\<lparr>arg_country = Some ''FR'', arg_start_date = None, arg_end_date = None\<rparr>" "(2024, 6, 1)"
        empty_world "''FR''" "''France''" example_data]
    by simp
qed

text \<open>
  Claim C9, as stated, holds for every source key. For the US key a missing cache file
  and a cache file that holds an empty table load to the same value, so the handler
  cannot tell them apart.
\<close>

theorem C9_missing_us_cache_counterexample:
  "us_cache empty_world = None
   \<and> us_cache (empty_world\<lparr>us_cache := Some []\<rparr>) = Some []
   \<and> fst (load_US_DASHBOARD_DATA empty_world)
       = fst (load_US_DASHBOARD_DATA (empty_world\<lparr>us_cache := Some []\<rparr>))"
  by (simp add: empty_world_def load_US_DASHBOARD_DATA_def read_pickle_def)

text \<open>
  Claim C9, amended: loading the US cache gives the last-saved table, and a missing US
  cache file is replaced by the empty table after a printed warning; loading the cache
  of a Euro country gives the last-saved table or \<open>FileNotFoundError\<close>, and for a Euro
  country the page for a missing cache file differs from the page for any present table,
  an empty one included.
\<close>

theorem C9_load_results:
  "fst (load_US_DASHBOARD_DATA w) = Inr (case us_cache w of None \<Rightarrow> [] | Some t \<Rightarrow> t)
   \<and> (us_cache w = None \<longrightarrow>
        stdout (snd (load_US_DASHBOARD_DATA w)) = stdout w @
          [''WARNING: US cache file not found. US charts will be empty until the update script is run.''])
   \<and> read_pickle (euro_cache w code) =
        (case euro_cache w code of None \<Rightarrow> Inl FileNotFoundError | Some t \<Rightarrow> Inr t)
   \<and> (map_of EURO_COUNTRIES code = Some country_name \<and> arg_country args = Some code
        \<and> euro_cache w code = None \<and> euro_cache w' code = Some t \<longrightarrow>
        fst (dashboard US_DASHBOARD_DATA today args w)
          \<noteq> fst (dashboard US_DASHBOARD_DATA today args w'))"
proof (intro conjI impI)
  show "fst (load_US_DASHBOARD_DATA w) = Inr (case us_cache w of None \<Rightarrow> [] | Some t \<Rightarrow> t)"
    by (simp add: load_US_DASHBOARD_DATA_def read_pickle_def split: option.splits)
next
  assume "us_cache w = None"
  then show "stdout (snd (load_US_DASHBOARD_DATA w)) = stdout w @
          [''WARNING: US cache file not found. US charts will be empty until the update script is run.'']"
    by (simp add: load_US_DASHBOARD_DATA_def read_pickle_def print_def)
next
  show "read_pickle (euro_cache w code) =
        (case euro_cache w code of None \<Rightarrow> Inl FileNotFoundError | Some t \<Rightarrow> Inr t)"
    by (simp add: read_pickle_def)
next
  assume a: "map_of EURO_COUNTRIES code = Some country_name \<and> arg_country args = Some code
        \<and> euro_cache w code = None \<and> euro_cache w' code = Some t"
  then have us: "code \<noteq> ''US''"
    using country_not_US by blast
  obtain c n where cn: "create_euro_plotly_charts (Some t) country_name = (c, n)"
    by (cases "create_euro_plotly_charts (Some t) country_name")
  have "c \<noteq> Markup (''<p>Euro data cache for '' @ country_name
           @ '' is empty. Please run the update script.</p>'')"
    using create_charts_not_missing [of t country_name] cn by simp
  then show "fst (dashboard US_DASHBOARD_DATA today args w)
          \<noteq> fst (dashboard US_DASHBOARD_DATA today args w')"
    using a us cn by (simp add: dashboard_def euro_dashboard_def read_pickle_def Let_def)
qed

theorem C9_load_results_witness:
  "us_cache empty_world = None
   \<and> fst (load_US_DASHBOARD_DATA empty_world) = Inr []
   \<and> stdout (snd (load_US_DASHBOARD_DATA empty_world)) =
       [''WARNING: US cache file not found. US charts will be empty until the update script is run.'']
   \<and> fst (load_US_DASHBOARD_DATA (empty_world\<lparr>us_cache := Some example_data\<rparr>)) = Inr example_data
   \<and> read_pickle (euro_cache empty_world ''DE'') = Inl FileNotFoundError
   \<and> map_of EURO_COUNTRIES ''DE'' = Some ''Germany''
   \<and> euro_cache (empty_world\<lparr>euro_cache := (\<lambda>code. Some no_rows_frame)\<rparr>) ''DE'' = Some no_rows_frame
   \<and> fst (dashboard [] (2024, 6, 1)
          \<lparr>arg_country = Some ''DE'', arg_start_date = None, arg_end_date = None\<rparr> empty_world)
       \<noteq> fst (dashboard [] (2024, 6, 1)
          \<lparr>arg_country = Some ''DE'', arg_start_date = None, arg_end_date = None\<rparr>
          (empty_world\<lparr>euro_cache := (\<lambda>code. Some no_rows_frame)\<rparr>))"
proof -
  have m: "map_of EURO_COUNTRIES ''DE'' = Some ''Germany''"
    by (simp add: EURO_COUNTRIES_def)
  have e: "us_cache empty_world = None" "euro_cache empty_world ''DE'' = None"
    "stdout empty_world = []"
    by (simp_all add: empty_world_def)
  show ?thesis
    using m e
      C9_load_results [of empty_world "''DE''" "''Germany''"
        "\<lparr>arg_country = Some ''DE'', arg_start_date = None, arg_end_date = None\<rparr>"
        "empty_world\<lparr>euro_cache := (\<lambda>code. Some no_rows_frame)\<rparr>" no_rows_frame "[]" "(2024, 6, 1)"]
      C9_load_results [of "empty_world\<lparr>us_cache := Some example_data\<rparr>" "''DE''" "''Germany''"
        "\<lparr>arg_country = Some ''DE'', arg_start_date = None, arg_end_date = None\<rparr>"
        "empty_world\<lparr>euro_cache := (\<lambda>code. Some no_rows_frame)\<rparr>" no_rows_frame "[]" "(2024, 6, 1)"]
    by simp
qed

section \<open>Properties of the Euro chart renderer\<close>

lemma df_positive_simps [simp]:
  "index (df_positive df) = filter (\<lambda>p. 0 < row_sum df p) (index df)"
  "columns (df_positive df) = columns df"
  "cell (df_positive df) = cell df"
  "row_sum (df_positive df) p = row_sum df p"
  by (simp_all add: df_positive_def row_sum_def)








end
